theory Spec2Isabelle
  imports Main
begin

section \<open>Data model (types/index.ts)\<close>

datatype Role = USER | ADMIN

text \<open>Timestamps (\<open>Date\<close>) and the JWT clock (seconds since the epoch) are naturals.\<close>

type_synonym Date = nat

record User =
  id :: string
  email :: string
  password :: string
  role :: Role
  createdAt :: Date
  updatedAt :: Date

record UserResponse =
  id :: string
  email :: string
  role :: Role
  createdAt :: Date

record AuthTokens =
  accessToken :: string
  refreshToken :: string

text \<open>
  \<open>JWTPayload\<close>: \<open>iat\<close> and \<open>exp\<close> are optional in the interface. The refresh token is
  signed over \<open>{ userId }\<close> alone, so a decoded payload may lack \<open>role\<close>; the field is
  optional here to hold both shapes of payload that the service signs.
\<close>

record JWTPayload =
  userId :: string
  role :: "Role option"
  iat :: "nat option"
  exp :: "nat option"

text \<open>
  What can be thrown. \<open>AuthError\<close> carries code, message and status code; its subclasses
  only fix the code and the status. \<open>jsonwebtoken\<close> throws \<open>JsonWebTokenError\<close> and its
  subclasses \<open>TokenExpiredError\<close> and \<open>NotBeforeError\<close>; \<open>jwt.verify\<close> also lets the
  \<open>SyntaxError\<close> of \<open>JSON.parse\<close> through, for a token whose payload is not JSON. Any other
  thrown value (a database error) is \<open>OtherError\<close>.
\<close>

datatype error =
    AuthError (code: string) (message: string) (statusCode: nat)
  | JsonWebTokenError string
  | TokenExpiredError
  | NotBeforeError
  | SyntaxError string
  | OtherError string

text \<open>\<open>error instanceof jwt.JsonWebTokenError\<close>\<close>

fun instanceof_JsonWebTokenError :: "error \<Rightarrow> bool" where
  "instanceof_JsonWebTokenError (JsonWebTokenError m) = True"
| "instanceof_JsonWebTokenError TokenExpiredError = True"
| "instanceof_JsonWebTokenError NotBeforeError = True"
| "instanceof_JsonWebTokenError e = False"

definition ValidationError :: "string \<Rightarrow> error" where
  "ValidationError msg = AuthError ''VALIDATION_ERROR'' msg 400"

definition UnauthorizedError :: "string \<Rightarrow> error" where
  "UnauthorizedError msg = AuthError ''UNAUTHORIZED'' msg 401"

definition NotFoundError :: "string \<Rightarrow> error" where
  "NotFoundError msg = AuthError ''NOT_FOUND'' msg 404"

text \<open>The message literals of the service; \<open>0xE1\<close> is the code unit of a-acute.\<close>

definition msg_email_registrado :: string where
  "msg_email_registrado = ''El email ya est'' @ [CHR 0xE1] @ '' registrado''"

definition msg_credenciales :: string where
  "msg_credenciales = ''Credenciales inv'' @ [CHR 0xE1] @ ''lidas''"

definition msg_refresh_invalido :: string where
  "msg_refresh_invalido = ''Refresh token inv'' @ [CHR 0xE1] @ ''lido''"

definition msg_usuario_no_encontrado :: string where
  "msg_usuario_no_encontrado = ''Usuario no encontrado''"

definition msg_token_invalido :: string where
  "msg_token_invalido = ''Token inv'' @ [CHR 0xE1] @ ''lido''"

section \<open>External libraries and configuration\<close>

text \<open>
  \<open>jsonwebtoken\<close> and \<open>bcryptjs\<close> are not part of the repository: the service takes them
  as parameters. \<open>jwt_sign payload secret expiresIn now\<close> is \<open>jwt.sign\<close> run when the clock
  reads \<open>now\<close> seconds, with \<open>expiresIn\<close> in seconds; \<open>jwt_verify token secret now\<close> is
  \<open>jwt.verify\<close> run at \<open>now\<close>, with what it throws as the left summand.
\<close>

record libs =
  jwt_sign :: "JWTPayload \<Rightarrow> string \<Rightarrow> nat \<Rightarrow> nat \<Rightarrow> string"
  jwt_verify :: "string \<Rightarrow> string \<Rightarrow> nat \<Rightarrow> error + JWTPayload"
  bcrypt_hash :: "string \<Rightarrow> nat \<Rightarrow> string"
  bcrypt_compare :: "string \<Rightarrow> string \<Rightarrow> bool"

record config =
  jwtSecret :: string
  jwtRefreshSecret :: string
  saltRounds :: nat

text \<open>
  What the surroundings supply to one call: the JWT clock in seconds, and the primary key
  and the timestamp that the database gives to a row it creates.
\<close>

record env =
  clock :: nat
  newId :: string
  dbNow :: Date

section \<open>The credential store (auth.repository.ts)\<close>

record RefreshToken =
  token :: string
  userId :: string

record store =
  users :: "User list"
  refreshTokens :: "RefreshToken list"

definition findUserByEmail :: "store \<Rightarrow> string \<Rightarrow> User option" where
  "findUserByEmail st e = find (\<lambda>u. User.email u = e) (users st)"

definition findUserById :: "store \<Rightarrow> string \<Rightarrow> User option" where
  "findUserById st i = find (\<lambda>u. User.id u = i) (users st)"

definition emailExists :: "store \<Rightarrow> string \<Rightarrow> bool" where
  "emailExists st e = (findUserByEmail st e \<noteq> None)"

definition findRefreshToken :: "store \<Rightarrow> string \<Rightarrow> string option" where
  "findRefreshToken st t =
     map_option RefreshToken.userId (find (\<lambda>r. token r = t) (refreshTokens st))"

text \<open>
  Modelled from the spec: the Prisma schema is not among the sources. The spec has \<open>email\<close>
  unique across users (the code relies on it: \<open>findUnique\<close> by email), \<open>id\<close> a unique
  identifier assigned at creation, and \<open>token\<close> unique; a \<open>create\<close> that would break one of
  these is rejected by the database and throws an error that is not an \<open>AuthError\<close>.
\<close>

definition P2002 :: error where
  "P2002 = OtherError ''P2002''"

definition createUser :: "env \<Rightarrow> store \<Rightarrow> string \<Rightarrow> string \<Rightarrow> (error + User) \<times> store" where
  "createUser ev st e hashedPassword =
     (if findUserByEmail st e \<noteq> None \<or> findUserById st (newId ev) \<noteq> None
      then (Inl P2002, st)
      else let u = \<lparr> User.id = newId ev, email = e, password = hashedPassword,
                      role = USER, createdAt = dbNow ev, updatedAt = dbNow ev \<rparr>
           in (Inr u, st\<lparr> users := users st @ [u] \<rparr>))"

definition createRefreshToken :: "store \<Rightarrow> string \<Rightarrow> string \<Rightarrow> (error + unit) \<times> store" where
  "createRefreshToken st t uid =
     (if findRefreshToken st t \<noteq> None
      then (Inl P2002, st)
      else (Inr (), st\<lparr> refreshTokens := refreshTokens st @ [\<lparr> token = t, userId = uid \<rparr>] \<rparr>))"

definition deleteRefreshToken :: "store \<Rightarrow> string \<Rightarrow> (error + unit) \<times> store" where
  "deleteRefreshToken st t =
     (Inr (), st\<lparr> refreshTokens := filter (\<lambda>r. token r \<noteq> t) (refreshTokens st) \<rparr>)"

definition deleteAllRefreshTokens :: "store \<Rightarrow> string \<Rightarrow> (error + unit) \<times> store" where
  "deleteAllRefreshTokens st uid =
     (Inr (), st\<lparr> refreshTokens := filter (\<lambda>r. RefreshToken.userId r \<noteq> uid) (refreshTokens st) \<rparr>)"

section \<open>The auth service (services/auth.service.ts)\<close>

definition generateAccessToken :: "libs \<Rightarrow> config \<Rightarrow> nat \<Rightarrow> string \<Rightarrow> Role \<Rightarrow> string" where
  "generateAccessToken lib cfg now uid r =
     jwt_sign lib \<lparr> JWTPayload.userId = uid, role = Some r, iat = None, exp = None \<rparr>
       (jwtSecret cfg) 3600 now"

definition generateRefreshToken :: "libs \<Rightarrow> config \<Rightarrow> nat \<Rightarrow> string \<Rightarrow> string" where
  "generateRefreshToken lib cfg now uid =
     jwt_sign lib \<lparr> JWTPayload.userId = uid, role = None, iat = None, exp = None \<rparr>
       (jwtRefreshSecret cfg) 604800 now"

definition generateTokens :: "libs \<Rightarrow> config \<Rightarrow> nat \<Rightarrow> string \<Rightarrow> Role \<Rightarrow> AuthTokens" where
  "generateTokens lib cfg now uid r =
     \<lparr> accessToken = generateAccessToken lib cfg now uid r,
       refreshToken = generateRefreshToken lib cfg now uid \<rparr>"

definition formatUserResponse :: "User \<Rightarrow> UserResponse" where
  "formatUserResponse u =
     \<lparr> UserResponse.id = User.id u, email = User.email u, role = User.role u,
       createdAt = User.createdAt u \<rparr>"

definition verifyAccessToken :: "libs \<Rightarrow> config \<Rightarrow> nat \<Rightarrow> string \<Rightarrow> error + JWTPayload" where
  "verifyAccessToken lib cfg now t =
     (case jwt_verify lib t (jwtSecret cfg) now of
        Inl e \<Rightarrow> Inl (UnauthorizedError msg_token_invalido)
      | Inr decoded \<Rightarrow> Inr decoded)"

definition register ::
  "libs \<Rightarrow> config \<Rightarrow> env \<Rightarrow> store \<Rightarrow> string \<Rightarrow> string \<Rightarrow> (error + UserResponse \<times> AuthTokens) \<times> store" where
  "register lib cfg ev st e pw =
     (if emailExists st e then (Inl (ValidationError msg_email_registrado), st)
      else
        let hashedPassword = bcrypt_hash lib pw (saltRounds cfg) in
        case createUser ev st e hashedPassword of
          (Inl err, st1) \<Rightarrow> (Inl err, st1)
        | (Inr user, st1) \<Rightarrow>
            let tokens = generateTokens lib cfg (clock ev) (User.id user) (User.role user) in
            (case createRefreshToken st1 (AuthTokens.refreshToken tokens) (User.id user) of
               (Inl err, st2) \<Rightarrow> (Inl err, st2)
             | (Inr _, st2) \<Rightarrow> (Inr (formatUserResponse user, tokens), st2)))"

definition login ::
  "libs \<Rightarrow> config \<Rightarrow> env \<Rightarrow> store \<Rightarrow> string \<Rightarrow> string \<Rightarrow> (error + UserResponse \<times> AuthTokens) \<times> store" where
  "login lib cfg ev st e pw =
     (case findUserByEmail st e of
        None \<Rightarrow> (Inl (UnauthorizedError msg_credenciales), st)
      | Some user \<Rightarrow>
          if \<not> bcrypt_compare lib pw (User.password user)
          then (Inl (UnauthorizedError msg_credenciales), st)
          else
            let tokens = generateTokens lib cfg (clock ev) (User.id user) (User.role user) in
            (case createRefreshToken st (AuthTokens.refreshToken tokens) (User.id user) of
               (Inl err, st1) \<Rightarrow> (Inl err, st1)
             | (Inr _, st1) \<Rightarrow> (Inr (formatUserResponse user, tokens), st1)))"

text \<open>
  \<open>refreshToken\<close>. The \<open>try\<close> block throws what \<open>jwt.verify\<close> throws, or an
  \<open>UnauthorizedError\<close> of its own. The \<open>catch\<close> replaces an instance of
  \<open>JsonWebTokenError\<close> by \<open>UnauthorizedError\<close> and throws everything else again as it is.
\<close>

definition refreshToken_try :: "libs \<Rightarrow> config \<Rightarrow> env \<Rightarrow> store \<Rightarrow> string \<Rightarrow> (error + AuthTokens) \<times> store" where
  "refreshToken_try lib cfg ev st t =
     (case jwt_verify lib t (jwtRefreshSecret cfg) (clock ev) of
        Inl e \<Rightarrow> (Inl e, st)
      | Inr decoded \<Rightarrow>
          (case findRefreshToken st t of
             None \<Rightarrow> (Inl (UnauthorizedError msg_refresh_invalido), st)
           | Some owner \<Rightarrow>
               if owner \<noteq> JWTPayload.userId decoded
               then (Inl (UnauthorizedError msg_refresh_invalido), st)
               else
                 (case findUserById st (JWTPayload.userId decoded) of
                    None \<Rightarrow> (Inl (UnauthorizedError msg_usuario_no_encontrado), st)
                  | Some user \<Rightarrow>
                      let accessToken = generateAccessToken lib cfg (clock ev) (User.id user) (User.role user)
                      in (Inr \<lparr> accessToken = accessToken, refreshToken = t \<rparr>, st))))"

definition refreshToken :: "libs \<Rightarrow> config \<Rightarrow> env \<Rightarrow> store \<Rightarrow> string \<Rightarrow> (error + AuthTokens) \<times> store" where
  "refreshToken lib cfg ev st t =
     (case refreshToken_try lib cfg ev st t of
        (Inl e, st') \<Rightarrow>
          if instanceof_JsonWebTokenError e
          then (Inl (UnauthorizedError msg_refresh_invalido), st')
          else (Inl e, st')
      | (Inr tokens, st') \<Rightarrow> (Inr tokens, st'))"

definition logout :: "store \<Rightarrow> string \<Rightarrow> (error + unit) \<times> store" where
  "logout st t = deleteRefreshToken st t"

definition getProfile :: "store \<Rightarrow> string \<Rightarrow> error + UserResponse" where
  "getProfile st uid =
     (case findUserById st uid of
        None \<Rightarrow> Inl (UnauthorizedError msg_usuario_no_encontrado)
      | Some user \<Rightarrow> Inr (formatUserResponse user))"

section \<open>The auth gate (auth.middleware.ts)\<close>

record RequestUser =
  userId :: string
  role :: "Role option"

record FastifyRequest =
  authorization :: "string option"
  user :: "RequestUser option"

text \<open>\<open>reply.code(c).send({ success, message })\<close>\<close>

datatype FastifyReply = Reply nat bool string

text \<open>
  \<open>String.prototype.split\<close> on a one-character separator: every occurrence of the
  separator ends a piece, empty pieces are kept, and the empty string gives one empty piece.
\<close>

fun js_split :: "char \<Rightarrow> string \<Rightarrow> string list" where
  "js_split sep [] = [[]]"
| "js_split sep (c # cs) =
     (if c = sep then [] # js_split sep cs
      else (case js_split sep cs of
              [] \<Rightarrow> [[c]]
            | p # ps \<Rightarrow> (c # p) # ps))"

text \<open>Array indexing: \<open>undefined\<close> out of range.\<close>

definition js_index :: "'a list \<Rightarrow> nat \<Rightarrow> 'a option" where
  "js_index xs i = (if i < length xs then Some (xs ! i) else None)"

definition msg_token_requerido :: string where
  "msg_token_requerido = ''Token de acceso requerido''"

definition msg_formato_invalido :: string where
  "msg_formato_invalido = ''Formato de token inv'' @ [CHR 0xE1] @ ''lido''"

definition msg_invalido_o_expirado :: string where
  "msg_invalido_o_expirado = ''Token inv'' @ [CHR 0xE1] @ ''lido o expirado''"

definition msg_acceso_denegado :: string where
  "msg_acceso_denegado = ''Acceso denegado. Se requieren permisos de administrador''"

text \<open>
  A middleware either sends a reply (left) or returns, and the request, with what it
  attached, goes on to the next handler (right). \<open>!authHeader\<close> and \<open>!token\<close> hold of
  \<open>undefined\<close> and of the empty string.
\<close>

definition verifyToken :: "libs \<Rightarrow> config \<Rightarrow> nat \<Rightarrow> FastifyRequest \<Rightarrow> FastifyReply + FastifyRequest" where
  "verifyToken lib cfg now request =
     (case authorization request of
        None \<Rightarrow> Inl (Reply 401 False msg_token_requerido)
      | Some authHeader \<Rightarrow>
          if authHeader = [] then Inl (Reply 401 False msg_token_requerido)
          else
            (case js_index (js_split CHR '' '' authHeader) 1 of
               None \<Rightarrow> Inl (Reply 401 False msg_formato_invalido)
             | Some t \<Rightarrow>
                 if t = [] then Inl (Reply 401 False msg_formato_invalido)
                 else
                   (case verifyAccessToken lib cfg now t of
                      Inl e \<Rightarrow> Inl (Reply 401 False msg_invalido_o_expirado)
                    | Inr decoded \<Rightarrow>
                        Inr (request\<lparr> user := Some \<lparr> RequestUser.userId = JWTPayload.userId decoded,
                                                      role = JWTPayload.role decoded \<rparr> \<rparr>))))"

definition verifyAdmin :: "FastifyRequest \<Rightarrow> FastifyReply + FastifyRequest" where
  "verifyAdmin request =
     (case user request of
        None \<Rightarrow> Inl (Reply 403 False msg_acceso_denegado)
      | Some u \<Rightarrow>
          if RequestUser.role u \<noteq> Some ADMIN then Inl (Reply 403 False msg_acceso_denegado)
          else Inr request)"

definition optionalAuth :: "libs \<Rightarrow> config \<Rightarrow> nat \<Rightarrow> FastifyRequest \<Rightarrow> FastifyRequest" where
  "optionalAuth lib cfg now request =
     (case authorization request of
        None \<Rightarrow> request
      | Some authHeader \<Rightarrow>
          if authHeader = [] then request
          else
            (case js_index (js_split CHR '' '' authHeader) 1 of
               None \<Rightarrow> request
             | Some t \<Rightarrow>
                 if t = [] then request
                 else
                   (case verifyAccessToken lib cfg now t of
                      Inl e \<Rightarrow> request
                    | Inr decoded \<Rightarrow>
                        request\<lparr> user := Some \<lparr> RequestUser.userId = JWTPayload.userId decoded,
                                                 role = JWTPayload.role decoded \<rparr> \<rparr>)))"

section \<open>What the service expects of its surroundings\<close>

text \<open>
  The contract of \<open>jsonwebtoken\<close> that the service relies on, for a key that is not empty
  and a payload without \<open>iat\<close> and \<open>exp\<close> of its own (the two payloads the service signs):
  verifying a signed token with the key it was signed with gives the payload back, with
  \<open>iat\<close> the second of signing and \<open>exp = iat + expiresIn\<close>, as long as the clock is
  strictly before \<open>exp\<close>; from \<open>exp\<close> on it throws \<open>TokenExpiredError\<close>.
\<close>

definition jwt_contract :: "libs \<Rightarrow> bool" where
  "jwt_contract lib \<longleftrightarrow>
     (\<forall>p s ttl now now'.
        s \<noteq> [] \<and> JWTPayload.iat p = None \<and> JWTPayload.exp p = None \<longrightarrow>
        jwt_verify lib (jwt_sign lib p s ttl now) s now' =
          (if now' < now + ttl
           then Inr (p\<lparr> iat := Some now, exp := Some (now + ttl) \<rparr>)
           else Inl TokenExpiredError))"

text \<open>
  The stores that the service itself builds: every refresh-token row belongs to a user
  that exists, and its token is a refresh token that the service signed for that user.
\<close>

definition store_wf :: "libs \<Rightarrow> config \<Rightarrow> store \<Rightarrow> bool" where
  "store_wf lib cfg st \<longleftrightarrow>
     (\<forall>r \<in> set (refreshTokens st).
        findUserById st (RefreshToken.userId r) \<noteq> None \<and>
        (\<exists>t0. token r = generateRefreshToken lib cfg t0 (RefreshToken.userId r)))"

section \<open>A reference instance of the libraries\<close>

text \<open>
  A small deterministic instance of the two libraries, on which the theorems below are
  run. A token is the text \<open>len.userId role iat.exp.key\<close>: the numbers in binary, least
  significant digit first, the role one letter, and the key standing for the signature
  made with it. Like an HS256 token it is a function of payload, key and second of signing.
  A text without the dots is malformed (\<open>JsonWebTokenError\<close>); a text with them whose role
  letter cannot be read stands for a token whose payload is not JSON, and verifying it
  throws the \<open>SyntaxError\<close> of the parser, before the key is looked at.
\<close>

fun bits :: "nat \<Rightarrow> string" where
  "bits 0 = []"
| "bits (Suc n) = (if even n then CHR ''1'' else CHR ''0'') # bits (Suc n div 2)"

fun unbits :: "string \<Rightarrow> nat" where
  "unbits [] = 0"
| "unbits (c # cs) = (if c = CHR ''1'' then 1 else 0) + 2 * unbits cs"

definition read_nat :: "string \<Rightarrow> (nat \<times> string) option" where
  "read_nat s =
     (case dropWhile (\<lambda>c. c \<noteq> CHR ''.'') s of
        [] \<Rightarrow> None
      | d # rest \<Rightarrow> Some (unbits (takeWhile (\<lambda>c. c \<noteq> CHR ''.'') s), rest))"

definition role_char :: "Role option \<Rightarrow> char" where
  "role_char r = (case r of None \<Rightarrow> CHR ''-'' | Some USER \<Rightarrow> CHR ''U'' | Some ADMIN \<Rightarrow> CHR ''A'')"

definition read_role :: "char \<Rightarrow> Role option option" where
  "read_role c =
     (if c = CHR ''-'' then Some None
      else if c = CHR ''U'' then Some (Some USER)
      else if c = CHR ''A'' then Some (Some ADMIN)
      else None)"

definition ref_sign :: "JWTPayload \<Rightarrow> string \<Rightarrow> nat \<Rightarrow> nat \<Rightarrow> string" where
  "ref_sign p s ttl now =
     bits (length (JWTPayload.userId p)) @ ''.'' @ JWTPayload.userId p
       @ [role_char (JWTPayload.role p)] @ bits now @ ''.'' @ bits (now + ttl) @ ''.'' @ s"

definition ref_decode :: "string \<Rightarrow> error + JWTPayload \<times> string" where
  "ref_decode t =
     (case read_nat t of
        None \<Rightarrow> Inl (JsonWebTokenError ''jwt malformed'')
      | Some (n, r1) \<Rightarrow>
          if length r1 \<le> n then Inl (JsonWebTokenError ''jwt malformed'')
          else
            (case read_role (r1 ! n) of
               None \<Rightarrow> Inl (SyntaxError ''Unexpected token'')
             | Some r \<Rightarrow>
                 (case read_nat (drop (Suc n) r1) of
                    None \<Rightarrow> Inl (JsonWebTokenError ''jwt malformed'')
                  | Some (i, r2) \<Rightarrow>
                      (case read_nat r2 of
                         None \<Rightarrow> Inl (JsonWebTokenError ''jwt malformed'')
                       | Some (x, sig) \<Rightarrow>
                           Inr (\<lparr> JWTPayload.userId = take n r1, role = r,
                                   iat = Some i, exp = Some x \<rparr>, sig)))))"

definition ref_verify :: "string \<Rightarrow> string \<Rightarrow> nat \<Rightarrow> error + JWTPayload" where
  "ref_verify t s now =
     (case ref_decode t of
        Inl e \<Rightarrow> Inl e
      | Inr (p, sig) \<Rightarrow>
          if s = [] then Inl (JsonWebTokenError ''secret or public key must be provided'')
          else if sig \<noteq> s then Inl (JsonWebTokenError ''invalid signature'')
          else if (case JWTPayload.exp p of None \<Rightarrow> False | Some x \<Rightarrow> x \<le> now)
          then Inl TokenExpiredError
          else Inr p)"

definition ref_lib :: libs where
  "ref_lib = \<lparr> jwt_sign = ref_sign, jwt_verify = ref_verify,
               bcrypt_hash = (\<lambda>pw rounds. ''$2a$'' @ pw),
               bcrypt_compare = (\<lambda>pw h. h = ''$2a$'' @ pw) \<rparr>"

text \<open>The configuration of SETUP.md, an empty store, and a store with one user.\<close>

definition cfg0 :: config where
  "cfg0 = \<lparr> jwtSecret = ''test-secret-key'', jwtRefreshSecret = ''test-refresh-secret'',
            saltRounds = 12 \<rparr>"

definition st0 :: store where
  "st0 = \<lparr> users = [], refreshTokens = [] \<rparr>"

definition ev0 :: env where
  "ev0 = \<lparr> clock = 1000, newId = ''u1'', dbNow = 1000000 \<rparr>"

definition ev1 :: env where
  "ev1 = \<lparr> clock = 2000, newId = ''u2'', dbNow = 2000000 \<rparr>"

definition alice :: User where
  "alice = \<lparr> User.id = ''u1'', email = ''alice@example.com'', password = ''$2a$Password1'',
              role = USER, createdAt = 1000000, updatedAt = 1000000 \<rparr>"

definition alice_tokens :: AuthTokens where
  "alice_tokens = generateTokens ref_lib cfg0 1000 ''u1'' USER"

definition st1 :: store where
  "st1 = \<lparr> users = [alice],
            refreshTokens = [\<lparr> token = AuthTokens.refreshToken alice_tokens, userId = ''u1'' \<rparr>] \<rparr>"

section \<open>The reference libraries meet the contract\<close>

lemma unbits_bits: "unbits (bits n) = n"
proof (induction n rule: bits.induct)
  case 1
  show ?case by simp
next
  case (2 n)
  have "unbits (bits (Suc n)) = (if even n then 1 else 0) + 2 * unbits (bits (Suc n div 2))"
    by simp
  also have "\<dots> = (if even n then 1 else 0) + 2 * (Suc n div 2)"
    using 2 by simp
  also have "\<dots> = Suc n"
    by (cases "even n") (auto elim: evenE oddE)
  finally show ?case .
qed

lemma bits_no_dot: "\<forall>c\<in>set (bits n). c \<noteq> CHR ''.''"
  by (induction n rule: bits.induct) auto

lemma bits_no_space: "CHR '' '' \<notin> set (bits n)"
  by (induction n rule: bits.induct) auto

lemma read_nat_bits: "read_nat (bits n @ CHR ''.'' # rest) = Some (n, rest)"
  using bits_no_dot [of n]
  by (simp add: read_nat_def takeWhile_append2 dropWhile_append2 dropWhile_append3 unbits_bits)

lemma read_role_char: "read_role (role_char r) = Some r"
  by (cases r) (auto simp: read_role_def role_char_def split: Role.splits)

lemma ref_decode_sign:
  "ref_decode (ref_sign p s ttl now) =
     Inr (\<lparr> JWTPayload.userId = JWTPayload.userId p, role = JWTPayload.role p,
             iat = Some now, exp = Some (now + ttl) \<rparr>, s)"
  by (simp add: ref_decode_def ref_sign_def read_nat_bits nth_append read_role_char)

lemma ref_lib_contract: "jwt_contract ref_lib"
  unfolding jwt_contract_def
proof (intro allI impI)
  fix p :: JWTPayload and s :: string and ttl now now' :: nat
  assume a: "s \<noteq> [] \<and> JWTPayload.iat p = None \<and> JWTPayload.exp p = None"
  then have "p\<lparr> iat := Some now, exp := Some (now + ttl) \<rparr> =
    \<lparr> JWTPayload.userId = JWTPayload.userId p, role = JWTPayload.role p,
      iat = Some now, exp = Some (now + ttl) \<rparr>"
    by simp
  with a show "jwt_verify ref_lib (jwt_sign ref_lib p s ttl now) s now' =
          (if now' < now + ttl
           then Inr (p\<lparr> iat := Some now, exp := Some (now + ttl) \<rparr>)
           else Inl TokenExpiredError)"
    by (auto simp: ref_lib_def ref_verify_def ref_decode_sign)
qed

lemma bits_pos:
  "n \<noteq> 0 \<Longrightarrow> bits n = (if odd n then CHR ''1'' else CHR ''0'') # bits (n div 2)"
  by (cases n) auto

lemma bits_numeral:
  "bits (numeral Num.One) = ''1''"
  "bits (numeral (Num.Bit0 k)) = CHR ''0'' # bits (numeral k)"
  "bits (numeral (Num.Bit1 k)) = CHR ''1'' # bits (numeral k)"
  by (simp_all add: bits_pos numeral_Bit0_div_2 numeral_Bit1_div_2 del: bits.simps(2))

lemma cfg0_keys: "jwtSecret cfg0 \<noteq> []" "jwtRefreshSecret cfg0 \<noteq> []"
  by (simp_all add: cfg0_def)

lemma alice_access_token:
  "AuthTokens.accessToken alice_tokens = ''01.u1U0001011111.0001111110001.test-secret-key''"
  by (simp add: alice_tokens_def generateTokens_def generateAccessToken_def ref_lib_def
      ref_sign_def role_char_def cfg0_def bits_numeral)

lemma alice_refresh_token:
  "AuthTokens.refreshToken alice_tokens = ''01.u1-0001011111.00010110011111001001.test-refresh-secret''"
  by (simp add: alice_tokens_def generateTokens_def generateRefreshToken_def ref_lib_def
      ref_sign_def role_char_def cfg0_def bits_numeral)

section \<open>Consequences of the contract\<close>

text \<open>The two payloads that the service signs, verified with the key they were signed with.\<close>

lemma verify_signed:
  assumes "jwt_contract lib" and "s \<noteq> []"
  shows "jwt_verify lib (jwt_sign lib \<lparr> JWTPayload.userId = u, role = r, iat = None, exp = None \<rparr> s ttl now) s now'
         = (if now' < now + ttl
            then Inr \<lparr> JWTPayload.userId = u, role = r, iat = Some now, exp = Some (now + ttl) \<rparr>
            else Inl TokenExpiredError)"
  using assms unfolding jwt_contract_def
  by (metis (no_types, lifting) JWTPayload.select_convs(3,4) JWTPayload.update_convs(3,4))

lemma access_token_inj:
  assumes "jwt_contract lib" and "jwtSecret cfg \<noteq> []"
    and eq: "generateAccessToken lib cfg t u r = generateAccessToken lib cfg t' u' r'"
  shows "t = t' \<and> u = u' \<and> r = r'"
proof -
  let ?v = "\<lambda>x. jwt_verify lib x (jwtSecret cfg) 0"
  have "?v (generateAccessToken lib cfg t u r) = ?v (generateAccessToken lib cfg t' u' r')"
    using eq by simp
  then show ?thesis
    using assms(1,2) by (simp add: generateAccessToken_def verify_signed)
qed

lemma refresh_token_inj:
  assumes "jwt_contract lib" and "jwtRefreshSecret cfg \<noteq> []"
    and eq: "generateRefreshToken lib cfg t u = generateRefreshToken lib cfg t' u'"
  shows "t = t' \<and> u = u'"
proof -
  let ?v = "\<lambda>x. jwt_verify lib x (jwtRefreshSecret cfg) 0"
  have "?v (generateRefreshToken lib cfg t u) = ?v (generateRefreshToken lib cfg t' u')"
    using eq by simp
  then show ?thesis
    using assms(1,2) by (simp add: generateRefreshToken_def verify_signed)
qed

lemma find_append:
  "find P (xs @ ys) = (case find P xs of None \<Rightarrow> find P ys | Some x \<Rightarrow> Some x)"
  by (induction xs) auto

lemma alice_refresh_verifies:
  "now < 605800 \<Longrightarrow>
   jwt_verify ref_lib (AuthTokens.refreshToken alice_tokens) (jwtRefreshSecret cfg0) now
     = Inr \<lparr> JWTPayload.userId = ''u1'', role = None, iat = Some 1000, exp = Some 605800 \<rparr>"
  using verify_signed [OF ref_lib_contract cfg0_keys(2), of "''u1''" None 604800 1000 now]
  by (simp add: alice_tokens_def generateTokens_def generateRefreshToken_def)

lemma st1_alice_token: "findRefreshToken st1 (AuthTokens.refreshToken alice_tokens) = Some ''u1''"
  by (simp add: findRefreshToken_def st1_def)

lemma st1_alice_id: "findUserById st1 ''u1'' = Some alice"
  by (simp add: findUserById_def st1_def alice_def)

lemma register_alice:
  "register ref_lib cfg0 ev0 st0 ''alice@example.com'' ''Password1''
     = (Inr (\<lparr> UserResponse.id = ''u1'', email = ''alice@example.com'', role = USER,
               createdAt = 1000000 \<rparr>, alice_tokens), st1)"
  by (simp add: register_def emailExists_def findUserByEmail_def findUserById_def st0_def ev0_def
      createUser_def createRefreshToken_def findRefreshToken_def formatUserResponse_def
      alice_tokens_def st1_def alice_def ref_lib_def Let_def)

lemma refresh_alice:
  "now < 605800 \<Longrightarrow>
   refreshToken ref_lib cfg0 (ev0\<lparr> clock := now \<rparr>) st1 (AuthTokens.refreshToken alice_tokens)
     = (Inr \<lparr> accessToken = generateAccessToken ref_lib cfg0 now ''u1'' USER,
              refreshToken = AuthTokens.refreshToken alice_tokens \<rparr>, st1)"
  by (simp add: refreshToken_def refreshToken_try_def alice_refresh_verifies st1_alice_token
      st1_alice_id alice_def)

lemma store_wf_st1: "store_wf ref_lib cfg0 st1"
proof -
  have "\<exists>t0. AuthTokens.refreshToken alice_tokens = generateRefreshToken ref_lib cfg0 t0 ''u1''"
    by (rule exI [of _ 1000]) (simp add: alice_tokens_def generateTokens_def)
  then show ?thesis
    by (simp add: store_wf_def st1_def findUserById_def alice_def)
qed

section \<open>Stores built by the service\<close>

text \<open>
  The empty store is well formed, and \<open>register\<close>, \<open>login\<close> and \<open>logout\<close> keep a store
  well formed whatever their outcome: the stores the service can reach are well formed.
\<close>

lemma findUserById_append:
  "findUserById st i \<noteq> None \<Longrightarrow> findUserById (st\<lparr> users := users st @ us \<rparr>) i \<noteq> None"
  by (auto simp: findUserById_def find_append)

lemma store_wf_empty: "store_wf lib cfg st0"
  by (simp add: store_wf_def st0_def)

lemma store_wf_createUser:
  assumes "store_wf lib cfg st"
  shows "store_wf lib cfg (snd (createUser ev st e h))"
  using assms
  by (auto simp: createUser_def store_wf_def Let_def findUserById_def find_append
      split: option.splits)

lemma store_wf_createRefreshToken:
  assumes "store_wf lib cfg st" and "findUserById st uid \<noteq> None"
  shows "store_wf lib cfg (snd (createRefreshToken st (generateRefreshToken lib cfg now uid) uid))"
  using assms
  by (auto simp: createRefreshToken_def store_wf_def findUserById_def)

lemma createUser_found:
  "createUser ev st e h = (Inr u, st') \<Longrightarrow> findUserById st' (User.id u) \<noteq> None"
  by (auto simp: createUser_def Let_def findUserById_def find_append split: if_splits option.splits)

lemma store_wf_register:
  assumes "store_wf lib cfg st"
  shows "store_wf lib cfg (snd (register lib cfg ev st e pw))"
proof (cases "emailExists st e")
  case True
  with assms show ?thesis by (simp add: register_def)
next
  case False
  obtain res st' where cu: "createUser ev st e (bcrypt_hash lib pw (saltRounds cfg)) = (res, st')"
    by (cases "createUser ev st e (bcrypt_hash lib pw (saltRounds cfg))")
  have wf': "store_wf lib cfg st'"
    using store_wf_createUser [OF assms, of ev e "bcrypt_hash lib pw (saltRounds cfg)"] cu by simp
  show ?thesis
  proof (cases res)
    case (Inl err)
    with False cu wf' show ?thesis by (simp add: register_def)
  next
    case (Inr u)
    with cu have "findUserById st' (User.id u) \<noteq> None"
      by (simp add: createUser_found)
    from store_wf_createRefreshToken [OF wf' this, of "clock ev"]
    show ?thesis
      using False cu Inr
      by (auto simp: register_def generateTokens_def Let_def split: prod.splits sum.splits)
  qed
qed

lemma store_wf_login:
  assumes "store_wf lib cfg st"
  shows "store_wf lib cfg (snd (login lib cfg ev st e pw))"
proof (cases "findUserByEmail st e")
  case None
  with assms show ?thesis by (simp add: login_def)
next
  case (Some u)
  then have "u \<in> set (users st)"
    by (auto simp: findUserByEmail_def find_Some_iff)
  then have "findUserById st (User.id u) \<noteq> None"
    by (auto simp: findUserById_def find_None_iff)
  from store_wf_createRefreshToken [OF assms this, of "clock ev"]
  show ?thesis
    using Some assms
    by (auto simp: login_def generateTokens_def Let_def split: prod.splits sum.splits)
qed

lemma store_wf_logout:
  assumes "store_wf lib cfg st"
  shows "store_wf lib cfg (snd (logout st t))"
  using assms by (auto simp: logout_def deleteRefreshToken_def store_wf_def findUserById_def)

lemma wf_token_fresh:
  assumes contract: "jwt_contract lib" and key: "jwtRefreshSecret cfg \<noteq> []"
    and wf: "store_wf lib cfg st"
    and fresh: "findUserById st uid = None"
  shows "find (\<lambda>r. token r = generateRefreshToken lib cfg now uid) (refreshTokens st) = None"
proof (rule ccontr)
  assume "find (\<lambda>r. token r = generateRefreshToken lib cfg now uid) (refreshTokens st) \<noteq> None"
  then obtain r where r: "r \<in> set (refreshTokens st)"
    and tr: "token r = generateRefreshToken lib cfg now uid"
    by (auto simp: find_None_iff)
  from wf r obtain t0 where ex: "findUserById st (RefreshToken.userId r) \<noteq> None"
    and iss: "token r = generateRefreshToken lib cfg t0 (RefreshToken.userId r)"
    unfolding store_wf_def by blast
  from tr iss have "RefreshToken.userId r = uid"
    using refresh_token_inj [OF contract key, of t0 "RefreshToken.userId r" now uid] by simp
  with ex fresh show False by simp
qed

section \<open>Registration\<close>

text \<open>
  C2. Registering an email that the store already holds fails with the \<open>ValidationError\<close>
  of the duplicate email, and the store afterwards is the store before: no user row and
  no refresh-token row is written.
\<close>

theorem register_duplicate_email:
  assumes "emailExists st e"
  shows "register lib cfg ev st e pw = (Inl (ValidationError msg_email_registrado), st)"
  using assms by (simp add: register_def)

theorem register_duplicate_email_witness:
  "emailExists st1 ''alice@example.com'' \<and>
   register ref_lib cfg0 ev0 st1 ''alice@example.com'' ''Password2'' =
     (Inl (ValidationError msg_email_registrado), st1)"
proof -
  have h: "emailExists st1 ''alice@example.com''"
    by (simp add: emailExists_def findUserByEmail_def st1_def alice_def)
  show ?thesis
    using h register_duplicate_email [OF h, of ref_lib cfg0 ev0 "''Password2''"] by simp
qed

text \<open>
  C9. Registering an email that no user has, in a store the service built, with a library
  that meets its contract, keys that are set and a primary key that the database has not
  used: \<open>register\<close> succeeds; the user it creates has role \<open>USER\<close>; the user object it
  returns has the four fields \<open>id\<close>, \<open>email\<close>, \<open>role\<close>, \<open>createdAt\<close> and no password hash;
  the access token it returns verifies, until it expires, to the new user's id and role
  \<open>USER\<close>; and the refresh token it returns is in the store and resolves to the same id.
\<close>

theorem register_new_email:
  assumes contract: "jwt_contract lib"
    and keys: "jwtSecret cfg \<noteq> []" "jwtRefreshSecret cfg \<noteq> []"
    and wf: "store_wf lib cfg st"
    and fresh: "findUserById st (newId ev) = None"
    and new: "\<not> emailExists st e"
  shows "\<exists>tokens st'.
           register lib cfg ev st e pw
             = (Inr (\<lparr> UserResponse.id = newId ev, email = e, role = USER, createdAt = dbNow ev \<rparr>,
                     tokens), st')
         \<and> findUserById st' (newId ev)
             = Some \<lparr> User.id = newId ev, email = e, password = bcrypt_hash lib pw (saltRounds cfg),
                      role = USER, createdAt = dbNow ev, updatedAt = dbNow ev \<rparr>
         \<and> (\<forall>now. now < clock ev + 3600 \<longrightarrow>
                verifyAccessToken lib cfg now (AuthTokens.accessToken tokens)
                  = Inr \<lparr> JWTPayload.userId = newId ev, role = Some USER, iat = Some (clock ev),
                          exp = Some (clock ev + 3600) \<rparr>)
         \<and> findRefreshToken st' (AuthTokens.refreshToken tokens) = Some (newId ev)"
proof -
  let ?u = "\<lparr> User.id = newId ev, email = e, password = bcrypt_hash lib pw (saltRounds cfg),
              role = USER, createdAt = dbNow ev, updatedAt = dbNow ev \<rparr>"
  let ?tokens = "generateTokens lib cfg (clock ev) (newId ev) USER"
  let ?rt = "generateRefreshToken lib cfg (clock ev) (newId ev)"
  let ?st' = "st\<lparr> users := users st @ [?u],
                   refreshTokens := refreshTokens st @ [\<lparr> token = ?rt, userId = newId ev \<rparr>] \<rparr>"
  have nf: "find (\<lambda>r. token r = ?rt) (refreshTokens st) = None"
    by (rule wf_token_fresh [OF contract keys(2) wf fresh])
  have reg: "register lib cfg ev st e pw = (Inr (formatUserResponse ?u, ?tokens), ?st')"
    using new fresh nf
    by (simp add: register_def emailExists_def createUser_def createRefreshToken_def
        findRefreshToken_def generateTokens_def Let_def)
  have usr: "findUserById ?st' (newId ev) = Some ?u"
    using fresh by (simp add: findUserById_def find_append)
  have acc: "\<forall>now. now < clock ev + 3600 \<longrightarrow>
               verifyAccessToken lib cfg now (AuthTokens.accessToken ?tokens)
                 = Inr \<lparr> JWTPayload.userId = newId ev, role = Some USER, iat = Some (clock ev),
                         exp = Some (clock ev + 3600) \<rparr>"
    using contract keys(1)
    by (simp add: generateTokens_def verifyAccessToken_def generateAccessToken_def verify_signed)
  have rtk: "findRefreshToken ?st' (AuthTokens.refreshToken ?tokens) = Some (newId ev)"
    using nf by (simp add: findRefreshToken_def find_append generateTokens_def)
  from reg usr acc rtk show ?thesis
    by (simp add: formatUserResponse_def)
qed

theorem register_new_email_witness:
  "jwt_contract ref_lib \<and> jwtSecret cfg0 \<noteq> [] \<and> jwtRefreshSecret cfg0 \<noteq> []
   \<and> store_wf ref_lib cfg0 st1 \<and> findUserById st1 (newId ev1) = None
   \<and> \<not> emailExists st1 ''bob@example.com''
   \<and> (\<exists>tokens st'.
           register ref_lib cfg0 ev1 st1 ''bob@example.com'' ''Password2''
             = (Inr (\<lparr> UserResponse.id = ''u2'', email = ''bob@example.com'', role = USER,
                       createdAt = 2000000 \<rparr>, tokens), st')
         \<and> findUserById st' ''u2''
             = Some \<lparr> User.id = ''u2'', email = ''bob@example.com'', password = ''$2a$Password2'',
                      role = USER, createdAt = 2000000, updatedAt = 2000000 \<rparr>
         \<and> (\<forall>now. now < 5600 \<longrightarrow>
                verifyAccessToken ref_lib cfg0 now (AuthTokens.accessToken tokens)
                  = Inr \<lparr> JWTPayload.userId = ''u2'', role = Some USER, iat = Some 2000,
                          exp = Some 5600 \<rparr>)
         \<and> findRefreshToken st' (AuthTokens.refreshToken tokens) = Some ''u2'')"
proof -
  have f: "findUserById st1 (newId ev1) = None"
    by (simp add: findUserById_def st1_def alice_def ev1_def)
  have n: "\<not> emailExists st1 ''bob@example.com''"
    by (simp add: emailExists_def findUserByEmail_def st1_def alice_def)
  show ?thesis
    using register_new_email [OF ref_lib_contract cfg0_keys store_wf_st1 f n, of "''Password2''"]
      ref_lib_contract cfg0_keys store_wf_st1 f n
    by (simp add: ev1_def ref_lib_def cfg0_def)
qed

section \<open>Login\<close>

text \<open>
  C1. A login that fails because no user has the email, and a login that fails because the
  password does not match the stored hash, throw the same error: an \<open>UnauthorizedError\<close>
  with code \<open>UNAUTHORIZED\<close>, status 401 and the one message of invalid credentials (the
  literal in the source is Spanish). Either cause alone gives it, and the store is untouched.
\<close>

theorem login_failure_uniform:
  assumes "findUserByEmail st e = None \<or>
           (\<exists>u. findUserByEmail st e = Some u \<and> \<not> bcrypt_compare lib pw (User.password u))"
  shows "login lib cfg ev st e pw = (Inl (AuthError ''UNAUTHORIZED'' msg_credenciales 401), st)"
  using assms by (auto simp: login_def UnauthorizedError_def)

theorem login_failure_uniform_witness:
  "findUserByEmail st0 ''bob@example.com'' = None
   \<and> login ref_lib cfg0 ev0 st0 ''bob@example.com'' ''Password1''
       = (Inl (AuthError ''UNAUTHORIZED'' msg_credenciales 401), st0)
   \<and> findUserByEmail st1 ''bob@example.com'' = None
   \<and> login ref_lib cfg0 ev0 st1 ''bob@example.com'' ''Password1''
       = (Inl (AuthError ''UNAUTHORIZED'' msg_credenciales 401), st1)
   \<and> findUserByEmail st1 ''alice@example.com'' = Some alice
   \<and> \<not> bcrypt_compare ref_lib ''Password2'' (User.password alice)
   \<and> login ref_lib cfg0 ev0 st1 ''alice@example.com'' ''Password2''
       = (Inl (AuthError ''UNAUTHORIZED'' msg_credenciales 401), st1)"
proof -
  have z: "findUserByEmail st0 ''bob@example.com'' = None"
    by (simp add: findUserByEmail_def st0_def)
  have a: "findUserByEmail st1 ''bob@example.com'' = None"
    by (simp add: findUserByEmail_def st1_def alice_def)
  have b: "findUserByEmail st1 ''alice@example.com'' = Some alice"
    by (simp add: findUserByEmail_def st1_def alice_def)
  have c: "\<not> bcrypt_compare ref_lib ''Password2'' (User.password alice)"
    by (simp add: ref_lib_def alice_def)
  have hz: "findUserByEmail st0 ''bob@example.com'' = None \<or>
    (\<exists>u. findUserByEmail st0 ''bob@example.com'' = Some u
         \<and> \<not> bcrypt_compare ref_lib ''Password1'' (User.password u))"
    using z by simp
  have ha: "findUserByEmail st1 ''bob@example.com'' = None \<or>
    (\<exists>u. findUserByEmail st1 ''bob@example.com'' = Some u
         \<and> \<not> bcrypt_compare ref_lib ''Password1'' (User.password u))"
    using a by simp
  have hb: "findUserByEmail st1 ''alice@example.com'' = None \<or>
    (\<exists>u. findUserByEmail st1 ''alice@example.com'' = Some u
         \<and> \<not> bcrypt_compare ref_lib ''Password2'' (User.password u))"
    using b c by simp
  show ?thesis
    using z a b c login_failure_uniform [OF hz, of cfg0 ev0] login_failure_uniform [OF ha, of cfg0 ev0]
      login_failure_uniform [OF hb, of cfg0 ev0]
    by simp
qed

section \<open>Token round trip\<close>

text \<open>
  C4. An access token issued for user \<open>u\<close> and role \<open>r\<close> verifies, with the access-token
  key, to claims with \<open>userId = u\<close> and \<open>role = r\<close> (and the \<open>iat\<close> and \<open>exp\<close> that
  signing added), at the second of issuance and at every second before the token expires,
  one hour later.
\<close>

theorem access_token_roundtrip:
  assumes "jwt_contract lib" and "jwtSecret cfg \<noteq> []" and "now' < now + 3600"
  shows "verifyAccessToken lib cfg now' (generateAccessToken lib cfg now u r)
         = Inr \<lparr> JWTPayload.userId = u, role = Some r, iat = Some now, exp = Some (now + 3600) \<rparr>"
  using assms
  by (simp add: verifyAccessToken_def generateAccessToken_def verify_signed)

theorem access_token_roundtrip_witness:
  "jwt_contract ref_lib \<and> jwtSecret cfg0 \<noteq> [] \<and> (1000::nat) < 1000 + 3600
   \<and> verifyAccessToken ref_lib cfg0 1000 ''01.u1U0001011111.0001111110001.test-secret-key''
       = Inr \<lparr> JWTPayload.userId = ''u1'', role = Some USER, iat = Some 1000, exp = Some 4600 \<rparr>"
proof -
  have t: "(1000::nat) < 1000 + 3600" by simp
  have g: "generateAccessToken ref_lib cfg0 1000 ''u1'' USER
           = ''01.u1U0001011111.0001111110001.test-secret-key''"
    using alice_access_token by (simp add: alice_tokens_def generateTokens_def)
  show ?thesis
    using access_token_roundtrip [OF ref_lib_contract cfg0_keys(1) t, of "''u1''" USER]
      ref_lib_contract cfg0_keys(1)
    by (simp add: g)
qed

section \<open>Refreshing\<close>

lemma refreshToken_verify_fails:
  "jwt_verify lib t (jwtRefreshSecret cfg) (clock ev) = Inl e \<Longrightarrow>
   refreshToken lib cfg ev st t
     = (Inl (if instanceof_JsonWebTokenError e then UnauthorizedError msg_refresh_invalido else e), st)"
  by (simp add: refreshToken_def refreshToken_try_def)

lemma refreshToken_verified:
  "jwt_verify lib t (jwtRefreshSecret cfg) (clock ev) = Inr decoded \<Longrightarrow>
   refreshToken lib cfg ev st t =
     (case findRefreshToken st t of
        None \<Rightarrow> (Inl (UnauthorizedError msg_refresh_invalido), st)
      | Some owner \<Rightarrow>
          if owner \<noteq> JWTPayload.userId decoded
          then (Inl (UnauthorizedError msg_refresh_invalido), st)
          else
            (case findUserById st (JWTPayload.userId decoded) of
               None \<Rightarrow> (Inl (UnauthorizedError msg_usuario_no_encontrado), st)
             | Some u \<Rightarrow>
                 (Inr \<lparr> accessToken = generateAccessToken lib cfg (clock ev) (User.id u) (User.role u),
                        refreshToken = t \<rparr>, st)))"
  by (simp add: refreshToken_def refreshToken_try_def UnauthorizedError_def
      split: option.splits)

text \<open>
  C5. A refresh token whose signature verifies, but which the store does not hold, or
  holds for an owner other than the \<open>userId\<close> of the verified claims, is refused with
  the \<open>UnauthorizedError\<close> of the invalid refresh token.
\<close>

theorem refreshToken_unknown_or_foreign:
  assumes verified: "jwt_verify lib t (jwtRefreshSecret cfg) (clock ev) = Inr decoded"
    and store: "findRefreshToken st t = None \<or>
                (\<exists>owner. findRefreshToken st t = Some owner \<and> owner \<noteq> JWTPayload.userId decoded)"
  shows "refreshToken lib cfg ev st t = (Inl (UnauthorizedError msg_refresh_invalido), st)"
  using assms by (auto simp: refreshToken_verified)

theorem refreshToken_unknown_or_foreign_witness:
  "jwt_verify ref_lib (AuthTokens.refreshToken alice_tokens) (jwtRefreshSecret cfg0) (clock ev0)
     = Inr \<lparr> JWTPayload.userId = ''u1'', role = None, iat = Some 1000, exp = Some 605800 \<rparr>
   \<and> findRefreshToken st0 (AuthTokens.refreshToken alice_tokens) = None
   \<and> refreshToken ref_lib cfg0 ev0 st0 (AuthTokens.refreshToken alice_tokens)
       = (Inl (UnauthorizedError msg_refresh_invalido), st0)"
proof -
  have v: "jwt_verify ref_lib (AuthTokens.refreshToken alice_tokens) (jwtRefreshSecret cfg0) (clock ev0)
     = Inr \<lparr> JWTPayload.userId = ''u1'', role = None, iat = Some 1000, exp = Some 605800 \<rparr>"
    by (simp add: alice_refresh_verifies ev0_def)
  have n: "findRefreshToken st0 (AuthTokens.refreshToken alice_tokens) = None"
    by (simp add: findRefreshToken_def st0_def)
  from n have s: "findRefreshToken st0 (AuthTokens.refreshToken alice_tokens) = None \<or>
    (\<exists>owner. findRefreshToken st0 (AuthTokens.refreshToken alice_tokens) = Some owner \<and>
       owner \<noteq> JWTPayload.userId \<lparr> JWTPayload.userId = ''u1'', role = None, iat = Some 1000, exp = Some 605800 \<rparr>)"
    by simp
  show ?thesis
    using v n refreshToken_unknown_or_foreign [OF v s] by simp
qed

text \<open>
  C6, as amended. For a refresh token that verifies, is stored for the user of its claims,
  and whose user exists, \<open>refreshToken\<close> returns the very token it was given together with
  an access token signed at the time of the call for the user's id and current role. With
  a library that meets its contract and a key that is set, that access token equals an
  access token issued at second \<open>t0\<close> for a user and role exactly when the call is made in
  second \<open>t0\<close> for that user and role: it differs from the one issued together with the
  refresh token whenever the call is made in another clock second than the issuance.
\<close>

theorem refreshToken_success:
  assumes valid: "jwt_verify lib t (jwtRefreshSecret cfg) (clock ev) = Inr decoded"
    and stored: "findRefreshToken st t = Some (JWTPayload.userId decoded)"
    and owner: "findUserById st (JWTPayload.userId decoded) = Some u"
  shows "refreshToken lib cfg ev st t =
           (Inr \<lparr> accessToken = generateAccessToken lib cfg (clock ev) (User.id u) (User.role u),
                  refreshToken = t \<rparr>, st)
       \<and> (jwt_contract lib \<and> jwtSecret cfg \<noteq> [] \<longrightarrow>
            (\<forall>t0 uid r0.
               (generateAccessToken lib cfg (clock ev) (User.id u) (User.role u)
                  = AuthTokens.accessToken (generateTokens lib cfg t0 uid r0))
               = (clock ev = t0 \<and> User.id u = uid \<and> User.role u = r0)))"
proof (intro conjI impI allI)
  show "refreshToken lib cfg ev st t =
           (Inr \<lparr> accessToken = generateAccessToken lib cfg (clock ev) (User.id u) (User.role u),
                  refreshToken = t \<rparr>, st)"
    using valid stored owner by (simp add: refreshToken_verified)
next
  fix t0 uid r0
  assume c: "jwt_contract lib \<and> jwtSecret cfg \<noteq> []"
  then have "generateAccessToken lib cfg (clock ev) (User.id u) (User.role u)
               = generateAccessToken lib cfg t0 uid r0
             \<Longrightarrow> clock ev = t0 \<and> User.id u = uid \<and> User.role u = r0"
    using access_token_inj [of lib cfg "clock ev" "User.id u" "User.role u" t0 uid r0] by simp
  then show "(generateAccessToken lib cfg (clock ev) (User.id u) (User.role u)
                  = AuthTokens.accessToken (generateTokens lib cfg t0 uid r0))
               = (clock ev = t0 \<and> User.id u = uid \<and> User.role u = r0)"
    by (auto simp: generateTokens_def)
qed

theorem refreshToken_success_witness:
  "jwt_verify ref_lib (AuthTokens.refreshToken alice_tokens) (jwtRefreshSecret cfg0) 1001
       = Inr \<lparr> JWTPayload.userId = ''u1'', role = None, iat = Some 1000, exp = Some 605800 \<rparr>
   \<and> findRefreshToken st1 (AuthTokens.refreshToken alice_tokens) = Some ''u1''
   \<and> findUserById st1 ''u1'' = Some alice
   \<and> jwt_contract ref_lib \<and> jwtSecret cfg0 \<noteq> []
   \<and> alice_tokens = generateTokens ref_lib cfg0 1000 ''u1'' USER
   \<and> refreshToken ref_lib cfg0 (ev0\<lparr> clock := 1001 \<rparr>) st1 (AuthTokens.refreshToken alice_tokens)
       = (Inr \<lparr> accessToken = generateAccessToken ref_lib cfg0 1001 ''u1'' USER,
                refreshToken = AuthTokens.refreshToken alice_tokens \<rparr>, st1)
   \<and> generateAccessToken ref_lib cfg0 1001 ''u1'' USER \<noteq> AuthTokens.accessToken alice_tokens"
proof -
  let ?ev = "ev0\<lparr> clock := 1001 \<rparr>"
  let ?d = "\<lparr> JWTPayload.userId = ''u1'', role = None, iat = Some 1000, exp = Some 605800 \<rparr>"
  have v: "jwt_verify ref_lib (AuthTokens.refreshToken alice_tokens) (jwtRefreshSecret cfg0) (clock ?ev)
       = Inr ?d"
    by (simp add: alice_refresh_verifies)
  have s: "findRefreshToken st1 (AuthTokens.refreshToken alice_tokens) = Some (JWTPayload.userId ?d)"
    by (simp add: st1_alice_token)
  have o: "findUserById st1 (JWTPayload.userId ?d) = Some alice"
    by (simp add: st1_alice_id)
  have k: "jwt_contract ref_lib \<and> jwtSecret cfg0 \<noteq> []"
    using ref_lib_contract cfg0_keys(1) by simp
  from refreshToken_success [OF v s o]
  have r: "refreshToken ref_lib cfg0 ?ev st1 (AuthTokens.refreshToken alice_tokens)
       = (Inr \<lparr> accessToken = generateAccessToken ref_lib cfg0 (clock ?ev) (User.id alice) (User.role alice),
                refreshToken = AuthTokens.refreshToken alice_tokens \<rparr>, st1)"
    and d: "(generateAccessToken ref_lib cfg0 (clock ?ev) (User.id alice) (User.role alice)
              = AuthTokens.accessToken (generateTokens ref_lib cfg0 1000 ''u1'' USER))
            = (clock ?ev = 1000 \<and> User.id alice = ''u1'' \<and> User.role alice = USER)"
    using k by blast+
  from d have n: "generateAccessToken ref_lib cfg0 1001 ''u1'' USER \<noteq> AuthTokens.accessToken alice_tokens"
    by (simp add: alice_def alice_tokens_def)
  from r have r': "refreshToken ref_lib cfg0 ?ev st1 (AuthTokens.refreshToken alice_tokens)
       = (Inr \<lparr> accessToken = generateAccessToken ref_lib cfg0 1001 ''u1'' USER,
                refreshToken = AuthTokens.refreshToken alice_tokens \<rparr>, st1)"
    by (simp add: alice_def)
  show ?thesis
    using v s o k n r' by (simp add: alice_tokens_def)
qed

text \<open>
  C6 as stated fails in the second of issuance: Alice registers when the clock reads 1000
  and refreshes before it reads 1001; signing is a function of payload, key and second,
  so the access token she gets back is the one she already has.
\<close>

theorem refreshToken_same_second_counterexample:
  "register ref_lib cfg0 ev0 st0 ''alice@example.com'' ''Password1''
     = (Inr (\<lparr> UserResponse.id = ''u1'', email = ''alice@example.com'', role = USER,
               createdAt = 1000000 \<rparr>,
             \<lparr> accessToken = ''01.u1U0001011111.0001111110001.test-secret-key'',
               refreshToken = ''01.u1-0001011111.00010110011111001001.test-refresh-secret'' \<rparr>), st1)
   \<and> refreshToken ref_lib cfg0 ev0 st1 ''01.u1-0001011111.00010110011111001001.test-refresh-secret''
     = (Inr \<lparr> accessToken = ''01.u1U0001011111.0001111110001.test-secret-key'',
              refreshToken = ''01.u1-0001011111.00010110011111001001.test-refresh-secret'' \<rparr>, st1)"
proof -
  have a: "alice_tokens = \<lparr> accessToken = ''01.u1U0001011111.0001111110001.test-secret-key'',
             refreshToken = ''01.u1-0001011111.00010110011111001001.test-refresh-secret'' \<rparr>"
    using alice_access_token alice_refresh_token by (cases alice_tokens) simp
  have g: "generateAccessToken ref_lib cfg0 1000 ''u1'' USER
           = ''01.u1U0001011111.0001111110001.test-secret-key''"
    using alice_access_token by (simp add: alice_tokens_def generateTokens_def)
  have e: "ev0\<lparr> clock := 1000 \<rparr> = ev0"
    by (simp add: ev0_def)
  show ?thesis
    using register_alice refresh_alice [of 1000] by (simp add: a g e)
qed

text \<open>
  C8. A refresh token that the service issued seven days ago or earlier fails verification
  with \<open>TokenExpiredError\<close>, and \<open>refreshToken\<close> refuses it with \<open>UnauthorizedError\<close> on
  that ground: the answer is the same for every store, whether the token is still in it
  or not, since the store is not consulted once verification has failed.
\<close>

theorem refreshToken_expired:
  assumes "jwt_contract lib" and "jwtRefreshSecret cfg \<noteq> []"
    and expired: "t0 + 604800 \<le> clock ev"
  shows "jwt_verify lib (generateRefreshToken lib cfg t0 uid) (jwtRefreshSecret cfg) (clock ev)
           = Inl TokenExpiredError
       \<and> (\<forall>st. refreshToken lib cfg ev st (generateRefreshToken lib cfg t0 uid)
                 = (Inl (UnauthorizedError msg_refresh_invalido), st))"
proof -
  have v: "jwt_verify lib (generateRefreshToken lib cfg t0 uid) (jwtRefreshSecret cfg) (clock ev)
           = Inl TokenExpiredError"
    using assms by (simp add: generateRefreshToken_def verify_signed)
  then show ?thesis
    by (simp add: refreshToken_verify_fails)
qed

theorem refreshToken_expired_witness:
  "jwt_contract ref_lib \<and> jwtRefreshSecret cfg0 \<noteq> []
   \<and> (1000::nat) + 604800 \<le> clock (ev0\<lparr> clock := 605800 \<rparr>)
   \<and> findRefreshToken st1 (generateRefreshToken ref_lib cfg0 1000 ''u1'') = Some ''u1''
   \<and> refreshToken ref_lib cfg0 (ev0\<lparr> clock := 605800 \<rparr>) st1 (generateRefreshToken ref_lib cfg0 1000 ''u1'')
       = (Inl (UnauthorizedError msg_refresh_invalido), st1)"
proof -
  have e: "(1000::nat) + 604800 \<le> clock (ev0\<lparr> clock := 605800 \<rparr>)" by simp
  have f: "findRefreshToken st1 (generateRefreshToken ref_lib cfg0 1000 ''u1'') = Some ''u1''"
    using st1_alice_token by (simp add: alice_tokens_def generateTokens_def)
  show ?thesis
    using refreshToken_expired [OF ref_lib_contract cfg0_keys(2) e, of "''u1''"]
      ref_lib_contract cfg0_keys(2) e f
    by simp
qed


text \<open>
  C10. \<open>refreshToken\<close> leaves the store as it found it, whether it succeeds or fails: it
  only reads, and on success it hands back the token it was given without storing anything.
\<close>

theorem refreshToken_store_unchanged:
  "snd (refreshToken lib cfg ev st t) = st"
  by (simp add: refreshToken_def refreshToken_try_def split: sum.splits option.splits prod.splits)

theorem refreshToken_store_unchanged_witness:
  "snd (refreshToken ref_lib cfg0 ev0 st1 (AuthTokens.refreshToken alice_tokens)) = st1
   \<and> snd (refreshToken ref_lib cfg0 ev0 st1 ''garbage'') = st1"
  using refreshToken_store_unchanged [of ref_lib cfg0 ev0 st1 "AuthTokens.refreshToken alice_tokens"]
    refreshToken_store_unchanged [of ref_lib cfg0 ev0 st1 "''garbage''"]
  by simp

section \<open>Logout\<close>

text \<open>
  \<open>logout\<close> never fails; when the store does not hold the token it changes nothing, so
  that a second \<open>logout\<close> with the same token succeeds and leaves the store of the first.
\<close>

lemma logout_succeeds: "fst (logout st t) = Inr ()"
  by (simp add: logout_def deleteRefreshToken_def)

lemma logout_absent:
  assumes "findRefreshToken st t = None"
  shows "logout st t = (Inr (), st)"
proof -
  from assms have "filter (\<lambda>r. token r \<noteq> t) (refreshTokens st) = refreshTokens st"
    by (auto simp: findRefreshToken_def find_None_iff filter_id_conv)
  then show ?thesis
    by (simp add: logout_def deleteRefreshToken_def)
qed

lemma logout_removes: "findRefreshToken (snd (logout st t)) t = None"
  by (simp add: logout_def deleteRefreshToken_def findRefreshToken_def find_None_iff)

lemma logout_twice: "logout (snd (logout st t)) t = (Inr (), snd (logout st t))"
  by (simp add: logout_def deleteRefreshToken_def)

text \<open>
  After \<open>logout\<close> a \<open>refreshToken\<close> with the same token never succeeds. It is refused with
  \<open>UnauthorizedError\<close> when the token verifies or \<open>jwt.verify\<close> throws an instance of
  \<open>JsonWebTokenError\<close>; anything else that \<open>jwt.verify\<close> throws is thrown on by the \<open>catch\<close>.
\<close>

lemma refreshToken_after_logout:
  "refreshToken lib cfg ev (snd (logout st t)) t =
     (Inl (case jwt_verify lib t (jwtRefreshSecret cfg) (clock ev) of
             Inl e \<Rightarrow> if instanceof_JsonWebTokenError e
                      then UnauthorizedError msg_refresh_invalido else e
           | Inr decoded \<Rightarrow> UnauthorizedError msg_refresh_invalido),
      snd (logout st t))"
  by (cases "jwt_verify lib t (jwtRefreshSecret cfg) (clock ev)")
    (simp_all add: refreshToken_verify_fails refreshToken_verified logout_removes)

text \<open>
  C7. The claim has \<open>refreshToken\<close> after \<open>logout\<close> refused with \<open>UnauthorizedError\<close> for
  every token. For a token whose payload cannot be parsed, \<open>jwt.verify\<close> throws a
  \<open>SyntaxError\<close>, which is no \<open>JsonWebTokenError\<close>: the \<open>catch\<close> of \<open>refreshToken\<close> throws it
  again, and the caller gets the \<open>SyntaxError\<close> in place of the \<open>UnauthorizedError\<close>.
\<close>

theorem refreshToken_after_logout_syntax_error:
  "logout st1 ''0.?0.0.test-refresh-secret'' = (Inr (), st1)
   \<and> logout (snd (logout st1 ''0.?0.0.test-refresh-secret'')) ''0.?0.0.test-refresh-secret''
       = (Inr (), st1)
   \<and> refreshToken ref_lib cfg0 ev0 st1 ''0.?0.0.test-refresh-secret''
       = (Inl (SyntaxError ''Unexpected token''), st1)"
proof -
  have v: "jwt_verify ref_lib ''0.?0.0.test-refresh-secret'' (jwtRefreshSecret cfg0) (clock ev0)
           = Inl (SyntaxError ''Unexpected token'')"
    by (simp add: ref_lib_def ref_verify_def ref_decode_def read_nat_def read_role_def)
  have n: "findRefreshToken st1 ''0.?0.0.test-refresh-secret'' = None"
    by (simp add: findRefreshToken_def st1_def alice_refresh_token)
  show ?thesis
    using logout_absent [OF n] refreshToken_verify_fails [OF v, of st1] by simp
qed

section \<open>The auth gate\<close>

text \<open>
  What \<open>verifyToken\<close> does: without a header it replies 401; every reply it sends is a
  401; when it lets the request through, it has attached exactly the \<open>userId\<close> and \<open>role\<close>
  of the claims of a token that verified; and a \<open>Bearer\<close> header is decided by the
  verification of its token.
\<close>

lemma js_split_no_sep: "sep \<notin> set w \<Longrightarrow> js_split sep w = [w]"
  by (induction w) auto

lemma js_split_first:
  "sep \<notin> set w \<Longrightarrow> js_split sep (w @ sep # rest) = w # js_split sep rest"
  by (induction w) auto

lemma alice_access_verifies:
  "now < 4600 \<Longrightarrow>
   verifyAccessToken ref_lib cfg0 now ''01.u1U0001011111.0001111110001.test-secret-key''
     = Inr \<lparr> JWTPayload.userId = ''u1'', role = Some USER, iat = Some 1000, exp = Some 4600 \<rparr>"
  using verify_signed [OF ref_lib_contract cfg0_keys(1), of "''u1''" "Some USER" 3600 1000 now]
    alice_access_token
  by (simp add: verifyAccessToken_def alice_tokens_def generateTokens_def generateAccessToken_def)

lemma verifyToken_no_header:
  "authorization request = None \<or> authorization request = Some [] \<Longrightarrow>
   verifyToken lib cfg now request = Inl (Reply 401 False msg_token_requerido)"
  by (auto simp: verifyToken_def)

lemma verifyToken_replies_401:
  "verifyToken lib cfg now request = Inl reply \<Longrightarrow> \<exists>m. reply = Reply 401 False m"
  by (auto simp: verifyToken_def split: option.splits if_splits sum.splits)

lemma verifyToken_attaches:
  "verifyToken lib cfg now request = Inr request' \<Longrightarrow>
   \<exists>t decoded. verifyAccessToken lib cfg now t = Inr decoded \<and>
     request' = request\<lparr> user := Some \<lparr> RequestUser.userId = JWTPayload.userId decoded,
                                         role = JWTPayload.role decoded \<rparr> \<rparr>"
  by (auto simp: verifyToken_def split: option.splits if_splits sum.splits)

lemma verifyToken_bearer:
  assumes "CHR '' '' \<notin> set t" and "t \<noteq> []"
  shows "verifyToken lib cfg now \<lparr> authorization = Some (''Bearer '' @ t), user = None \<rparr>
         = (case verifyAccessToken lib cfg now t of
              Inl e \<Rightarrow> Inl (Reply 401 False msg_invalido_o_expirado)
            | Inr decoded \<Rightarrow>
                Inr \<lparr> authorization = Some (''Bearer '' @ t),
                      user = Some \<lparr> RequestUser.userId = JWTPayload.userId decoded,
                                    role = JWTPayload.role decoded \<rparr> \<rparr>)"
  using assms js_split_first [of "CHR '' ''" "''Bearer''" t] js_split_no_sep [of "CHR '' ''" t]
  by (simp add: verifyToken_def js_index_def split: sum.splits)

text \<open>
  The scheme word is never looked at: any word in the place of \<open>Bearer\<close> does.
\<close>

lemma verifyToken_any_scheme:
  assumes "CHR '' '' \<notin> set w" and "CHR '' '' \<notin> set t" and "t \<noteq> []"
    and "verifyAccessToken lib cfg now t = Inr decoded"
  shows "verifyToken lib cfg now \<lparr> authorization = Some (w @ CHR '' '' # t), user = None \<rparr>
         = Inr \<lparr> authorization = Some (w @ CHR '' '' # t),
                 user = Some \<lparr> RequestUser.userId = JWTPayload.userId decoded,
                               role = JWTPayload.role decoded \<rparr> \<rparr>"
  using assms js_split_first [of "CHR '' ''" w t] js_split_no_sep [of "CHR '' ''" t]
  by (simp add: verifyToken_def js_index_def)

text \<open>
  C3. The claim has a header that is not of the form \<open>Bearer <token>\<close> answered with 401.
  The code splits the header at spaces and takes the second piece, whatever the first is:
  a \<open>Basic\<close> header carrying a valid access token is let through with the identity attached.
\<close>

theorem verifyToken_accepts_basic_scheme:
  "verifyToken ref_lib cfg0 1000
     \<lparr> authorization = Some ''Basic 01.u1U0001011111.0001111110001.test-secret-key'', user = None \<rparr>
   = Inr \<lparr> authorization = Some ''Basic 01.u1U0001011111.0001111110001.test-secret-key'',
           user = Some \<lparr> RequestUser.userId = ''u1'', role = Some USER \<rparr> \<rparr>"
  by (simp add: verifyToken_def js_index_def alice_access_verifies)

end
